theory Spec2Isabelle
  imports Main "HOL-Library.Word"
begin

section \<open>The PairAdmin bridge: data model\<close>

text \<open>
  The bridge consists of \<^verbatim>\<open>pairadmin.h\<close> and \<^verbatim>\<open>pairadmin.c\<close> (the event enumeration, the
  callback type, the process-wide callback pointer and its setter) and of three patches
  to the terminal engine, given in \<^verbatim>\<open>terminal_modifications.c\<close>,
  \<^verbatim>\<open>ldisc_modifications.c\<close>, \<^verbatim>\<open>window_modifications.c\<close> and summarised in
  \<^verbatim>\<open>PUTTY_MODIFICATIONS.c\<close>.

  A buffer argument (\<^verbatim>\<open>const void *data\<close>) is modelled by the bytes it points to, and
  \<^verbatim>\<open>size_t len\<close> by a natural number: the bridge never computes with either, it only
  passes them on.
\<close>

type_synonym byte = "8 word"
type_synonym size_t = nat

text \<open>\<^verbatim>\<open>typedef enum { PAIRADMIN_EVENT_OUTPUT = 1, PAIRADMIN_EVENT_INPUT = 2 }\<close>\<close>

datatype PairAdminEventType = PAIRADMIN_EVENT_OUTPUT | PAIRADMIN_EVENT_INPUT

fun event_value :: "PairAdminEventType \<Rightarrow> nat" where
  "event_value PAIRADMIN_EVENT_OUTPUT = 1"
| "event_value PAIRADMIN_EVENT_INPUT = 2"

text \<open>
  \<^verbatim>\<open>typedef void (*PairAdminCallback)(PairAdminEventType event, const void *data, size_t len)\<close>.
  The function returns \<^verbatim>\<open>void\<close> and receives the buffer as \<^verbatim>\<open>const\<close>: what a call
  does is an update of the state \<open>'o\<close> of the observer that installed it. A pointer of
  this type is \<open>None\<close> when it is \<^verbatim>\<open>NULL\<close>. This is a handler that keeps to its type:
  it returns, and it does not write through \<^verbatim>\<open>data\<close>. Handlers as arbitrary code, and
  stores to the pointer while a call site is under way, are the subject of the section on
  the call sites at the level of C.
\<close>

type_synonym 'o PairAdminCallback = "PairAdminEventType \<Rightarrow> byte list \<Rightarrow> size_t \<Rightarrow> 'o \<Rightarrow> 'o"

text \<open>
  What happens on the data path is recorded in call order: a call of the engine's
  \<^verbatim>\<open>term_data\<close>, a call of the engine's \<^verbatim>\<open>ldisc_send\<close>, a call through the callback
  pointer.
\<close>

datatype action =
    TermData "byte list" size_t
  | LdiscSend "byte list" size_t
  | Callback PairAdminEventType "byte list" size_t

text \<open>
  The state of the process: the terminal (\<^verbatim>\<open>Terminal *term\<close>) and the line discipline
  (\<^verbatim>\<open>Ldisc *ldisc\<close>) of the engine, the global \<^verbatim>\<open>pairadmin_callback\<close>, the state of the
  observer, and the record of calls.
\<close>

record ('t, 'l, 'o) world =
  terminal :: 't
  ldisc :: 'l
  pairadmin_callback :: "'o PairAdminCallback option"
  observer :: 'o
  trace :: "action list"

text \<open>
  The engine itself is not part of the bridge. Its two data-path functions
  \<^verbatim>\<open>void term_data(Terminal *term, const char *data, size_t len)\<close> and
  \<^verbatim>\<open>size_t ldisc_send(Ldisc *ldisc, const void *buf, size_t len)\<close> are parameters, together
  with the build flag \<^verbatim>\<open>PAIRADMIN_INTEGRATION\<close> tested by \<^verbatim>\<open>#ifdef\<close>.
\<close>

record ('t, 'l) putty =
  PAIRADMIN_INTEGRATION :: bool
  term_data :: "'t \<Rightarrow> byte list \<Rightarrow> size_t \<Rightarrow> 't"
  ldisc_send :: "'l \<Rightarrow> byte list \<Rightarrow> size_t \<Rightarrow> size_t \<times> 'l"

section \<open>pairadmin.c\<close>

text \<open>\<^verbatim>\<open>PairAdminCallback pairadmin_callback = NULL;\<close> At process start nothing has run.\<close>

definition process_start :: "'t \<Rightarrow> 'l \<Rightarrow> 'o \<Rightarrow> ('t, 'l, 'o) world" where
  "process_start t l obs =
     \<lparr>terminal = t, ldisc = l, pairadmin_callback = None, observer = obs, trace = []\<rparr>"

text \<open>\<^verbatim>\<open>void pairadmin_set_callback(PairAdminCallback callback) { pairadmin_callback = callback; }\<close>\<close>

definition pairadmin_set_callback ::
  "'o PairAdminCallback option \<Rightarrow> ('t, 'l, 'o) world \<Rightarrow> ('t, 'l, 'o) world" where
  "pairadmin_set_callback callback w = w\<lparr>pairadmin_callback := callback\<rparr>"

section \<open>The hooks and the patched call sites\<close>

text \<open>
  \<^verbatim>\<open>void term_data_hook(Terminal *term, const char *data, size_t len)
  { if (pairadmin_callback) { pairadmin_callback(PAIRADMIN_EVENT_OUTPUT, data, len); } }\<close>
\<close>

definition term_data_hook :: "byte list \<Rightarrow> size_t \<Rightarrow> ('t, 'l, 'o) world \<Rightarrow> ('t, 'l, 'o) world" where
  "term_data_hook data len w =
     (case pairadmin_callback w of
        None \<Rightarrow> w
      | Some cb \<Rightarrow>
          w\<lparr>observer := cb PAIRADMIN_EVENT_OUTPUT data len (observer w),
            trace := trace w @ [Callback PAIRADMIN_EVENT_OUTPUT data len]\<rparr>)"

text \<open>
  \<^verbatim>\<open>void ldisc_send_hook(Ldisc *ldisc, const void *buf, size_t len)
  { if (pairadmin_callback) { pairadmin_callback(PAIRADMIN_EVENT_INPUT, buf, len); } }\<close>
\<close>

definition ldisc_send_hook :: "byte list \<Rightarrow> size_t \<Rightarrow> ('t, 'l, 'o) world \<Rightarrow> ('t, 'l, 'o) world" where
  "ldisc_send_hook buf len w =
     (case pairadmin_callback w of
        None \<Rightarrow> w
      | Some cb \<Rightarrow>
          w\<lparr>observer := cb PAIRADMIN_EVENT_INPUT buf len (observer w),
            trace := trace w @ [Callback PAIRADMIN_EVENT_INPUT buf len]\<rparr>)"

text \<open>
  The unpatched call sites of the engine: \<^verbatim>\<open>term_data(term, data, len);\<close> and
  \<^verbatim>\<open>return ldisc_send(ldisc, buf, len);\<close>
\<close>

definition term_data_original ::
  "('t, 'l) putty \<Rightarrow> byte list \<Rightarrow> size_t \<Rightarrow> ('t, 'l, 'o) world \<Rightarrow> ('t, 'l, 'o) world" where
  "term_data_original p data len w =
     w\<lparr>terminal := term_data p (terminal w) data len,
       trace := trace w @ [TermData data len]\<rparr>"

definition ldisc_send_original ::
  "('t, 'l) putty \<Rightarrow> byte list \<Rightarrow> size_t \<Rightarrow> ('t, 'l, 'o) world \<Rightarrow> size_t \<times> ('t, 'l, 'o) world" where
  "ldisc_send_original p buf len w =
     (let (r, l') = ldisc_send p (ldisc w) buf len
      in (r, w\<lparr>ldisc := l', trace := trace w @ [LdiscSend buf len]\<rparr>))"

text \<open>
  The patched call sites. Output: \<^verbatim>\<open>term_data(term, data, len);\<close> and then, under
  \<^verbatim>\<open>#ifdef PAIRADMIN_INTEGRATION\<close>, the body of the output hook. Input: under the same
  \<^verbatim>\<open>#ifdef\<close> the body of the input hook, and then \<^verbatim>\<open>return ldisc_send(ldisc, buf, len);\<close>
\<close>

definition term_data_modified ::
  "('t, 'l) putty \<Rightarrow> byte list \<Rightarrow> size_t \<Rightarrow> ('t, 'l, 'o) world \<Rightarrow> ('t, 'l, 'o) world" where
  "term_data_modified p data len w =
     (let w1 = term_data_original p data len w
      in if PAIRADMIN_INTEGRATION p then term_data_hook data len w1 else w1)"

definition ldisc_send_modified ::
  "('t, 'l) putty \<Rightarrow> byte list \<Rightarrow> size_t \<Rightarrow> ('t, 'l, 'o) world \<Rightarrow> size_t \<times> ('t, 'l, 'o) world" where
  "ldisc_send_modified p buf len w =
     (let w1 = (if PAIRADMIN_INTEGRATION p then ldisc_send_hook buf len w else w)
      in ldisc_send_original p buf len w1)"

section \<open>Sessions\<close>

text \<open>
  The engine handles one chunk at a time on its data path: output bytes from the remote
  host go through the output call site, input bytes from the user through the input call
  site. A run returns the values the input call site returned, in order, and the final
  state.
\<close>

datatype chunk = Output "byte list" size_t | Input "byte list" size_t

fun process ::
  "('t, 'l) putty \<Rightarrow> chunk \<Rightarrow> ('t, 'l, 'o) world \<Rightarrow> size_t list \<times> ('t, 'l, 'o) world" where
  "process p (Output data len) w = ([], term_data_modified p data len w)"
| "process p (Input buf len) w = (let (r, w') = ldisc_send_modified p buf len w in ([r], w'))"

fun run ::
  "('t, 'l) putty \<Rightarrow> chunk list \<Rightarrow> ('t, 'l, 'o) world \<Rightarrow> size_t list \<times> ('t, 'l, 'o) world" where
  "run p [] w = ([], w)"
| "run p (c # cs) w =
     (let (rs, w1) = process p c w; (rs', w2) = run p cs w1 in (rs @ rs', w2))"

text \<open>The same session on the engine without the patch.\<close>

fun process_original ::
  "('t, 'l) putty \<Rightarrow> chunk \<Rightarrow> ('t, 'l, 'o) world \<Rightarrow> size_t list \<times> ('t, 'l, 'o) world" where
  "process_original p (Output data len) w = ([], term_data_original p data len w)"
| "process_original p (Input buf len) w =
     (let (r, w') = ldisc_send_original p buf len w in ([r], w'))"

fun run_original ::
  "('t, 'l) putty \<Rightarrow> chunk list \<Rightarrow> ('t, 'l, 'o) world \<Rightarrow> size_t list \<times> ('t, 'l, 'o) world" where
  "run_original p [] w = ([], w)"
| "run_original p (c # cs) w =
     (let (rs, w1) = process_original p c w; (rs', w2) = run_original p cs w1
      in (rs @ rs', w2))"

text \<open>
  The observer's side of a session: calls of \<^verbatim>\<open>pairadmin_set_callback\<close> between the
  chunks the engine handles.
\<close>

datatype 'o operation = SetCallback "'o PairAdminCallback option" | Chunk chunk

fun exec ::
  "('t, 'l) putty \<Rightarrow> 'o operation \<Rightarrow> ('t, 'l, 'o) world \<Rightarrow> size_t list \<times> ('t, 'l, 'o) world" where
  "exec p (SetCallback callback) w = ([], pairadmin_set_callback callback w)"
| "exec p (Chunk c) w = process p c w"

fun session ::
  "('t, 'l) putty \<Rightarrow> 'o operation list \<Rightarrow> ('t, 'l, 'o) world \<Rightarrow> size_t list \<times> ('t, 'l, 'o) world" where
  "session p [] w = ([], w)"
| "session p (x # xs) w =
     (let (rs, w1) = exec p x w; (rs', w2) = session p xs w1 in (rs @ rs', w2))"

section \<open>window.c\<close>

text \<open>
  \<^verbatim>\<open>typedef void* HWND;\<close> A window handle is an address, \<^verbatim>\<open>NULL\<close> is address zero.
\<close>

type_synonym HWND = nat

definition NULL :: HWND where
  "NULL = 0"

text \<open>\<^verbatim>\<open>HWND hwnd_terminal = NULL;\<close>\<close>

record window =
  hwnd_terminal :: HWND

definition window_start :: window where
  "window_start = \<lparr>hwnd_terminal = NULL\<rparr>"

text \<open>\<^verbatim>\<open>HWND putty_get_terminal_hwnd(void) { return hwnd_terminal; }\<close>\<close>

definition putty_get_terminal_hwnd :: "window \<Rightarrow> HWND" where
  "putty_get_terminal_hwnd s = hwnd_terminal s"

text \<open>
  The patch to \<^verbatim>\<open>window.c\<close> changes the linkage of \<^verbatim>\<open>hwnd_terminal\<close> and adds the
  function above; every assignment to the variable stays in the engine's own window
  code. That code stores the handle of the terminal window when it has created it. What
  it stores when the window is destroyed is not given anywhere in the patch, so it is a
  parameter \<open>teardown\<close>, from the value held to the value left behind. A query is a call
  of \<^verbatim>\<open>putty_get_terminal_hwnd\<close>; a session returns the answers of its queries in order.
\<close>

datatype window_op = WindowCreated HWND | WindowDestroyed | Query

fun window_step :: "(HWND \<Rightarrow> HWND) \<Rightarrow> window_op \<Rightarrow> window \<Rightarrow> HWND list \<times> window" where
  "window_step teardown (WindowCreated h) s = ([], s\<lparr>hwnd_terminal := h\<rparr>)"
| "window_step teardown WindowDestroyed s = ([], s\<lparr>hwnd_terminal := teardown (hwnd_terminal s)\<rparr>)"
| "window_step teardown Query s = ([putty_get_terminal_hwnd s], s)"

fun window_session ::
  "(HWND \<Rightarrow> HWND) \<Rightarrow> window_op list \<Rightarrow> window \<Rightarrow> HWND list \<times> window" where
  "window_session teardown [] s = ([], s)"
| "window_session teardown (x # xs) s =
     (let (qs, s1) = window_step teardown x s; (qs', s2) = window_session teardown xs s1
      in (qs @ qs', s2))"

text \<open>
  The teardown that assigns nothing: \<^verbatim>\<open>window_modifications.c\<close> lists under its known
  limitations that the handle may become invalid if the window is destroyed.
\<close>

definition teardown_keeps :: "HWND \<Rightarrow> HWND" where
  "teardown_keeps h = h"

text \<open>A teardown that resets the variable.\<close>

definition teardown_clears :: "HWND \<Rightarrow> HWND" where
  "teardown_clears h = NULL"

section \<open>Observations\<close>

text \<open>
  An event is what one call through the callback pointer passes: the kind, the bytes and
  the length. Each chunk has the event its interception point reports.
\<close>

type_synonym event = "PairAdminEventType \<times> byte list \<times> size_t"

fun event_of :: "chunk \<Rightarrow> event" where
  "event_of (Output data len) = (PAIRADMIN_EVENT_OUTPUT, data, len)"
| "event_of (Input buf len) = (PAIRADMIN_EVENT_INPUT, buf, len)"

definition deliver :: "'o PairAdminCallback \<Rightarrow> 'o \<Rightarrow> event \<Rightarrow> 'o" where
  "deliver cb obs e = (case e of (kind, data, len) \<Rightarrow> cb kind data len obs)"

text \<open>The calls through the callback pointer in a record.\<close>

fun callbacks :: "action list \<Rightarrow> event list" where
  "callbacks [] = []"
| "callbacks (Callback kind data len # as) = (kind, data, len) # callbacks as"
| "callbacks (a # as) = callbacks as"

text \<open>The calls one chunk adds to the record, with and without a notification.\<close>

fun actions_of :: "bool \<Rightarrow> chunk \<Rightarrow> action list" where
  "actions_of notify (Output data len) =
     TermData data len # (if notify then [Callback PAIRADMIN_EVENT_OUTPUT data len] else [])"
| "actions_of notify (Input buf len) =
     (if notify then [Callback PAIRADMIN_EVENT_INPUT buf len] else []) @ [LdiscSend buf len]"

text \<open>Position-wise order of a record.\<close>

definition output_follows_term_data :: "action list \<Rightarrow> bool" where
  "output_follows_term_data tr \<longleftrightarrow>
     (\<forall>i data len. i < length tr \<and> tr ! i = Callback PAIRADMIN_EVENT_OUTPUT data len \<longrightarrow>
        0 < i \<and> tr ! (i - 1) = TermData data len)"

section \<open>A concrete engine and observer\<close>

text \<open>
  An engine whose terminal is the bytes queued for rendering and whose line discipline
  is the bytes sent, and an observer that keeps every event it is given.
\<close>

definition mock_engine :: "bool \<Rightarrow> (byte list, byte list) putty" where
  "mock_engine flag =
     \<lparr>PAIRADMIN_INTEGRATION = flag,
      term_data = (\<lambda>screen data len. screen @ take len data),
      ldisc_send = (\<lambda>sent buf len. (len, sent @ take len buf))\<rparr>"

definition recorder :: "event list PairAdminCallback" where
  "recorder kind data len log = log @ [(kind, data, len)]"

definition fresh :: "(byte list, byte list, event list) world" where
  "fresh = process_start [] [] []"

definition listening :: "(byte list, byte list, event list) world" where
  "listening = pairadmin_set_callback (Some recorder) fresh"

section \<open>The call sites at the level of C\<close>

text \<open>
  The sections above take a handler that keeps to its type: it returns, and it only reads
  the buffer. The bridge does not enforce either. This section takes a handler as the
  code it is and the callback pointer as the unsynchronised global it is.

  \<^verbatim>\<open>PairAdminCallback\<close> is a pointer to a function: an address, zero for \<^verbatim>\<open>NULL\<close>.
\<close>

type_synonym fnptr = nat

text \<open>
  The function at an address. A call hands it the kind, the engine's own buffer (a pointer,
  not a copy: the bytes it finds there and the bytes it leaves there) and the length. It
  can reach the exported global \<^verbatim>\<open>pairadmin_callback\<close>, by assignment or through
  \<^verbatim>\<open>pairadmin_set_callback\<close>, and the observer's own state. It returns with the buffer,
  the pointer and the observer's state as it leaves them, or it does not return
  (\<open>None\<close>). Nothing in \<^verbatim>\<open>if (pairadmin_callback) { pairadmin_callback(..., data, len); }\<close>
  copies the buffer, bounds the call or catches its failure.
\<close>

type_synonym 'o handler_code =
  "PairAdminEventType \<Rightarrow> byte list \<Rightarrow> size_t \<Rightarrow> fnptr \<times> 'o \<Rightarrow> (byte list \<times> fnptr \<times> 'o) option"

text \<open>
  The record of calls, with the function called by a call through the pointer and with
  every store to the pointer.
\<close>

datatype c_action =
    CTermData "byte list" size_t
  | CLdiscSend "byte list" size_t
  | CCallback fnptr PairAdminEventType "byte list" size_t
  | CStore fnptr

record ('t, 'l, 'o) c_world =
  c_terminal :: 't
  c_ldisc :: 'l
  c_pairadmin_callback :: fnptr
  c_observer :: 'o
  c_trace :: "c_action list"

text \<open>\<^verbatim>\<open>PairAdminCallback pairadmin_callback = NULL;\<close>\<close>

definition c_process_start :: "'t \<Rightarrow> 'l \<Rightarrow> 'o \<Rightarrow> ('t, 'l, 'o) c_world" where
  "c_process_start t l obs =
     \<lparr>c_terminal = t, c_ldisc = l, c_pairadmin_callback = 0, c_observer = obs, c_trace = []\<rparr>"

text \<open>\<^verbatim>\<open>void pairadmin_set_callback(PairAdminCallback callback) { pairadmin_callback = callback; }\<close>\<close>

definition c_pairadmin_set_callback ::
  "fnptr \<Rightarrow> ('t, 'l, 'o) c_world \<Rightarrow> ('t, 'l, 'o) c_world" where
  "c_pairadmin_set_callback callback s =
     s\<lparr>c_pairadmin_callback := callback, c_trace := c_trace s @ [CStore callback]\<rparr>"

text \<open>
  Calls of \<^verbatim>\<open>pairadmin_set_callback\<close> made by another thread while the engine is inside
  a call site, in the order in which they return.
\<close>

fun racing_stores :: "fnptr list \<Rightarrow> ('t, 'l, 'o) c_world \<Rightarrow> ('t, 'l, 'o) c_world" where
  "racing_stores [] s = s"
| "racing_stores (f # fs) s = racing_stores fs (c_pairadmin_set_callback f s)"

text \<open>
  The call \<^verbatim>\<open>pairadmin_callback(kind, data, len)\<close> once the pointer has been read as
  \<open>f\<close>: the function at \<open>f\<close> runs on the engine's thread, and the call site goes on when
  and if it returns. A call through a null pointer does not return.
\<close>

definition call_through ::
  "(fnptr \<Rightarrow> 'o handler_code) \<Rightarrow> fnptr \<Rightarrow> PairAdminEventType \<Rightarrow> byte list \<Rightarrow> size_t \<Rightarrow>
   ('t, 'l, 'o) c_world \<Rightarrow> (byte list \<times> ('t, 'l, 'o) c_world) option" where
  "call_through code f kind data len s =
     (if f = 0 then None
      else case code f kind data len (c_pairadmin_callback s, c_observer s) of
             None \<Rightarrow> None
           | Some (data', callback', obs') \<Rightarrow>
               Some (data', s\<lparr>c_pairadmin_callback := callback', c_observer := obs',
                              c_trace := c_trace s @ [CCallback f kind data len]\<rparr>))"

text \<open>
  \<^verbatim>\<open>if (pairadmin_callback) { pairadmin_callback(kind, data, len); }\<close> reads the global
  for the test and again for the call, without a lock or an atomic. \<open>stores1\<close> are the
  stores of another thread that return between the test and the read for the call,
  \<open>stores2\<close> those that return between that read and the handler's run. With both empty
  the hook is one step. A compiler that keeps the value of the test for the call gives
  the runs with \<open>stores1\<close> empty.
\<close>

definition c_hook ::
  "(fnptr \<Rightarrow> 'o handler_code) \<Rightarrow> PairAdminEventType \<Rightarrow> fnptr list \<Rightarrow> fnptr list \<Rightarrow>
   byte list \<Rightarrow> size_t \<Rightarrow> ('t, 'l, 'o) c_world \<Rightarrow> (byte list \<times> ('t, 'l, 'o) c_world) option" where
  "c_hook code kind stores1 stores2 data len s =
     (if c_pairadmin_callback s = 0 then Some (data, racing_stores (stores1 @ stores2) s)
      else let s1 = racing_stores stores1 s; f = c_pairadmin_callback s1
           in call_through code f kind data len (racing_stores stores2 s1))"

text \<open>
  The patched call sites. Output: \<^verbatim>\<open>term_data(term, data, len);\<close> and then the hook.
  Input: the hook, and then \<^verbatim>\<open>return ldisc_send(ldisc, buf, len);\<close> on the buffer as the
  handler left it. A call site whose hook does not return does not return.
\<close>

definition c_term_data_modified ::
  "('t, 'l) putty \<Rightarrow> (fnptr \<Rightarrow> 'o handler_code) \<Rightarrow> fnptr list \<Rightarrow> fnptr list \<Rightarrow>
   byte list \<Rightarrow> size_t \<Rightarrow> ('t, 'l, 'o) c_world \<Rightarrow> ('t, 'l, 'o) c_world option" where
  "c_term_data_modified p code stores1 stores2 data len s =
     (let s1 = s\<lparr>c_terminal := term_data p (c_terminal s) data len,
                  c_trace := c_trace s @ [CTermData data len]\<rparr>
      in if PAIRADMIN_INTEGRATION p
         then map_option snd (c_hook code PAIRADMIN_EVENT_OUTPUT stores1 stores2 data len s1)
         else Some (racing_stores (stores1 @ stores2) s1))"

definition c_ldisc_send_modified ::
  "('t, 'l) putty \<Rightarrow> (fnptr \<Rightarrow> 'o handler_code) \<Rightarrow> fnptr list \<Rightarrow> fnptr list \<Rightarrow>
   byte list \<Rightarrow> size_t \<Rightarrow> ('t, 'l, 'o) c_world \<Rightarrow> (size_t \<times> ('t, 'l, 'o) c_world) option" where
  "c_ldisc_send_modified p code stores1 stores2 buf len s =
     (case (if PAIRADMIN_INTEGRATION p
            then c_hook code PAIRADMIN_EVENT_INPUT stores1 stores2 buf len s
            else Some (buf, racing_stores (stores1 @ stores2) s)) of
        None \<Rightarrow> None
      | Some (buf', s1) \<Rightarrow>
          (let (r, l') = ldisc_send p (c_ldisc s1) buf' len
           in Some (r, s1\<lparr>c_ldisc := l', c_trace := c_trace s1 @ [CLdiscSend buf' len]\<rparr>)))"

text \<open>
  A session of two threads: calls of \<^verbatim>\<open>pairadmin_set_callback\<close> between the call sites,
  and chunks with the stores that fall inside their call site. A session ends where a
  call site does not return.
\<close>

datatype c_operation = CSetCallback fnptr | CChunk chunk "fnptr list" "fnptr list"

fun c_exec ::
  "('t, 'l) putty \<Rightarrow> (fnptr \<Rightarrow> 'o handler_code) \<Rightarrow> c_operation \<Rightarrow> ('t, 'l, 'o) c_world \<Rightarrow>
   (size_t list \<times> ('t, 'l, 'o) c_world) option" where
  "c_exec p code (CSetCallback callback) s = Some ([], c_pairadmin_set_callback callback s)"
| "c_exec p code (CChunk (Output data len) stores1 stores2) s =
     map_option (\<lambda>s'. ([], s')) (c_term_data_modified p code stores1 stores2 data len s)"
| "c_exec p code (CChunk (Input buf len) stores1 stores2) s =
     map_option (\<lambda>(r, s'). ([r], s')) (c_ldisc_send_modified p code stores1 stores2 buf len s)"

fun c_session ::
  "('t, 'l) putty \<Rightarrow> (fnptr \<Rightarrow> 'o handler_code) \<Rightarrow> c_operation list \<Rightarrow> ('t, 'l, 'o) c_world \<Rightarrow>
   (size_t list \<times> ('t, 'l, 'o) c_world) option" where
  "c_session p code [] s = Some ([], s)"
| "c_session p code (x # xs) s =
     (case c_exec p code x s of
        None \<Rightarrow> None
      | Some (rs, s1) \<Rightarrow>
          (case c_session p code xs s1 of
             None \<Rightarrow> None
           | Some (rs', s2) \<Rightarrow> Some (rs @ rs', s2)))"

subsection \<open>Observations\<close>

text \<open>The calls through the pointer in a record, and the engine's own calls.\<close>

fun c_callbacks :: "c_action list \<Rightarrow> (fnptr \<times> event) list" where
  "c_callbacks [] = []"
| "c_callbacks (CCallback f kind data len # as) = (f, kind, data, len) # c_callbacks as"
| "c_callbacks (a # as) = c_callbacks as"

fun c_engine_calls :: "c_action list \<Rightarrow> c_action list" where
  "c_engine_calls [] = []"
| "c_engine_calls (CTermData data len # as) = CTermData data len # c_engine_calls as"
| "c_engine_calls (CLdiscSend buf len # as) = CLdiscSend buf len # c_engine_calls as"
| "c_engine_calls (a # as) = c_engine_calls as"

text \<open>
  What the engine itself shows of a state: the terminal it renders from, the line
  discipline it transmits through, and its own calls in order.
\<close>

definition c_engine_view :: "('t, 'l, 'o) c_world \<Rightarrow> 't \<times> 'l \<times> c_action list" where
  "c_engine_view s = (c_terminal s, c_ldisc s, c_engine_calls (c_trace s))"

text \<open>The unpatched engine on what it shows.\<close>

fun engine_process ::
  "('t, 'l) putty \<Rightarrow> chunk \<Rightarrow> 't \<times> 'l \<times> c_action list \<Rightarrow>
   size_t list \<times> 't \<times> 'l \<times> c_action list" where
  "engine_process p (Output data len) (t, l, calls) =
     ([], term_data p t data len, l, calls @ [CTermData data len])"
| "engine_process p (Input buf len) (t, l, calls) =
     (let (r, l') = ldisc_send p l buf len in ([r], t, l', calls @ [CLdiscSend buf len]))"

fun engine_run ::
  "('t, 'l) putty \<Rightarrow> chunk list \<Rightarrow> 't \<times> 'l \<times> c_action list \<Rightarrow>
   size_t list \<times> 't \<times> 'l \<times> c_action list" where
  "engine_run p [] v = ([], v)"
| "engine_run p (c # cs) v =
     (let (rs, v1) = engine_process p c v; (rs', v2) = engine_run p cs v1 in (rs @ rs', v2))"

text \<open>The chunks the engine handles in a session.\<close>

fun c_chunks_of :: "c_operation list \<Rightarrow> chunk list" where
  "c_chunks_of [] = []"
| "c_chunks_of (CSetCallback callback # xs) = c_chunks_of xs"
| "c_chunks_of (CChunk c stores1 stores2 # xs) = c # c_chunks_of xs"

text \<open>An operation with no store inside a call site.\<close>

fun sequential :: "c_operation \<Rightarrow> bool" where
  "sequential (CSetCallback callback) = True"
| "sequential (CChunk c stores1 stores2) = (stores1 = [] \<and> stores2 = [])"

text \<open>An operation with a store that installs a handler.\<close>

fun c_registers :: "c_operation \<Rightarrow> bool" where
  "c_registers (CSetCallback callback) = (callback \<noteq> 0)"
| "c_registers (CChunk c stores1 stores2) = list_ex (\<lambda>f. f \<noteq> 0) (stores1 @ stores2)"

text \<open>
  The contract the bridge leaves to the observer: every call of every handler returns and
  leaves the buffer as it found it. What it does to the pointer and to the observer's
  state is free.
\<close>

definition returns_unchanged :: "(fnptr \<Rightarrow> 'o handler_code) \<Rightarrow> bool" where
  "returns_unchanged code \<longleftrightarrow>
     (\<forall>f kind data len callback obs.
        \<exists>callback' obs'. code f kind data len (callback, obs) = Some (data, callback', obs'))"

subsection \<open>The handlers of the sections above, as code\<close>

definition as_code :: "'o PairAdminCallback \<Rightarrow> 'o handler_code" where
  "as_code h kind data len st =
     (case st of (callback, obs) \<Rightarrow> Some (data, callback, h kind data len obs))"

fun abstract_trace :: "c_action list \<Rightarrow> action list" where
  "abstract_trace [] = []"
| "abstract_trace (CTermData data len # as) = TermData data len # abstract_trace as"
| "abstract_trace (CLdiscSend buf len # as) = LdiscSend buf len # abstract_trace as"
| "abstract_trace (CCallback f kind data len # as) = Callback kind data len # abstract_trace as"
| "abstract_trace (CStore f # as) = abstract_trace as"

definition abstraction :: "'o PairAdminCallback \<Rightarrow> ('t, 'l, 'o) c_world \<Rightarrow> ('t, 'l, 'o) world" where
  "abstraction h s =
     \<lparr>terminal = c_terminal s, ldisc = c_ldisc s,
      pairadmin_callback = (if c_pairadmin_callback s = 0 then None else Some h),
      observer = c_observer s, trace = abstract_trace (c_trace s)\<rparr>"

subsection \<open>Concrete handlers\<close>

text \<open>
  At address 1 a handler that keeps every event; at address 2 one that also overwrites
  the first byte of the buffer with \<^verbatim>\<open>X\<close>; at every other address one that never returns.
\<close>

definition keeper :: "event list handler_code" where
  "keeper kind data len st =
     (case st of (callback, log) \<Rightarrow> Some (data, callback, log @ [(kind, data, len)]))"

definition scribbler :: "event list handler_code" where
  "scribbler kind data len st =
     (case st of (callback, log) \<Rightarrow> Some (data[0 := 88], callback, log @ [(kind, data, len)]))"

definition spinner :: "event list handler_code" where
  "spinner kind data len st = None"

definition handlers :: "fnptr \<Rightarrow> event list handler_code" where
  "handlers f = (if f = 1 then keeper else if f = 2 then scribbler else spinner)"

text \<open>
  Handlers within the contract: the one that keeps every event, and one that keeps its
  event and unregisters itself.
\<close>

definition one_shot :: "event list handler_code" where
  "one_shot kind data len st =
     (case st of (callback, log) \<Rightarrow> Some (data, 0, log @ [(kind, data, len)]))"

definition contained_handlers :: "fnptr \<Rightarrow> event list handler_code" where
  "contained_handlers f = (if f = 1 then keeper else one_shot)"

definition c_fresh :: "(byte list, byte list, event list) c_world" where
  "c_fresh = c_process_start [] [] []"

section \<open>Sessions step by step\<close>

lemmas call_site_defs =
  term_data_modified_def term_data_original_def term_data_hook_def
  ldisc_send_modified_def ldisc_send_original_def ldisc_send_hook_def

lemma run_Cons_snd: "snd (run p (c # cs) w) = snd (run p cs (snd (process p c w)))"
  by (simp add: split_def Let_def)

lemma run_Cons_fst:
  "fst (run p (c # cs) w) = fst (process p c w) @ fst (run p cs (snd (process p c w)))"
  by (simp add: split_def Let_def)

lemma session_Cons_snd: "snd (session p (x # xs) w) = snd (session p xs (snd (exec p x w)))"
  by (simp add: split_def Let_def)

lemma session_append:
  "session p (xs @ ys) w =
     (fst (session p xs w) @ fst (session p ys (snd (session p xs w))),
      snd (session p ys (snd (session p xs w))))"
  by (induction xs arbitrary: w) (simp_all add: split_def Let_def)

lemma session_chunks: "session p (map Chunk cs) w = run p cs w"
  by (induction cs arbitrary: w) (simp_all add: split_def Let_def)

lemma callbacks_append: "callbacks (xs @ ys) = callbacks xs @ callbacks ys"
  by (induction xs rule: callbacks.induct) simp_all

lemma callbacks_actions_notify:
  "callbacks (concat (map (actions_of True) cs)) = map event_of cs"
proof (induction cs)
  case Nil
  show ?case by simp
next
  case (Cons c cs)
  then show ?case by (cases c) (simp_all add: callbacks_append)
qed

lemma callbacks_actions_silent:
  "callbacks (concat (map (actions_of False) cs)) = []"
proof (induction cs)
  case Nil
  show ?case by simp
next
  case (Cons c cs)
  then show ?case by (cases c) (simp_all add: callbacks_append)
qed

subsection \<open>One chunk\<close>

text \<open>Neither call site assigns the callback pointer.\<close>

lemma process_callback: "pairadmin_callback (snd (process p c w)) = pairadmin_callback w"
  by (cases c) (simp_all add: call_site_defs Let_def split: option.splits prod.splits)

lemma process_original_callback:
  "pairadmin_callback (snd (process_original p c w)) = pairadmin_callback w"
  by (cases c) (simp_all add: call_site_defs Let_def split: prod.splits)

lemma process_trace:
  "trace (snd (process p c w)) =
     trace w @ actions_of (PAIRADMIN_INTEGRATION p \<and> pairadmin_callback w \<noteq> None) c"
  by (cases c) (auto simp add: call_site_defs Let_def split: option.splits prod.splits)

lemma process_observer:
  "observer (snd (process p c w)) =
     (case pairadmin_callback w of
        None \<Rightarrow> observer w
      | Some cb \<Rightarrow>
          if PAIRADMIN_INTEGRATION p then deliver cb (observer w) (event_of c) else observer w)"
  by (cases c)
     (auto simp add: call_site_defs deliver_def Let_def split: option.splits prod.splits)

lemma process_silent:
  "\<not> PAIRADMIN_INTEGRATION p \<or> pairadmin_callback w = None \<Longrightarrow>
   process p c w = process_original p c w"
  by (cases c) (auto simp add: call_site_defs Let_def split: option.splits prod.splits)

subsection \<open>A list of chunks\<close>

lemma run_callback: "pairadmin_callback (snd (run p cs w)) = pairadmin_callback w"
proof (induction cs arbitrary: w)
  case Nil
  show ?case by simp
next
  case (Cons c cs)
  have "pairadmin_callback (snd (run p cs (snd (process p c w)))) = pairadmin_callback w"
    by (simp add: Cons.IH process_callback)
  then show ?case by (simp only: run_Cons_snd)
qed

lemma run_trace:
  "trace (snd (run p cs w)) =
     trace w @
     concat (map (actions_of (PAIRADMIN_INTEGRATION p \<and> pairadmin_callback w \<noteq> None)) cs)"
proof (induction cs arbitrary: w)
  case Nil
  show ?case by simp
next
  case (Cons c cs)
  show ?case
    by (simp add: run_Cons_snd Cons.IH process_trace process_callback del: run.simps)
qed

lemma run_observer_registered:
  assumes "PAIRADMIN_INTEGRATION p" and "pairadmin_callback w = Some h"
  shows "observer (snd (run p cs w)) = foldl (deliver h) (observer w) (map event_of cs)"
  using assms(2)
proof (induction cs arbitrary: w)
  case Nil
  show ?case by simp
next
  case (Cons c cs)
  have cb: "pairadmin_callback (snd (process p c w)) = Some h"
    by (simp add: process_callback Cons.prems)
  have "observer (snd (process p c w)) = deliver h (observer w) (event_of c)"
    by (simp add: process_observer Cons.prems assms(1))
  with Cons.IH [OF cb] show ?case
    by (simp add: run_Cons_snd del: run.simps)
qed

lemma run_observer_silent:
  assumes "\<not> PAIRADMIN_INTEGRATION p \<or> pairadmin_callback w = None"
  shows "observer (snd (run p cs w)) = observer w"
  using assms
proof (induction cs arbitrary: w)
  case Nil
  show ?case by simp
next
  case (Cons c cs)
  have keep: "\<not> PAIRADMIN_INTEGRATION p \<or> pairadmin_callback (snd (process p c w)) = None"
    using Cons.prems by (simp add: process_callback)
  have "observer (snd (process p c w)) = observer w"
    using Cons.prems by (auto simp add: process_observer split: option.splits)
  with Cons.IH [OF keep] show ?case
    by (simp add: run_Cons_snd del: run.simps)
qed

lemma run_callbacks_silent:
  "\<not> PAIRADMIN_INTEGRATION p \<or> pairadmin_callback w = None \<Longrightarrow>
   callbacks (trace (snd (run p cs w))) = callbacks (trace w)"
  by (auto simp add: run_trace callbacks_append callbacks_actions_silent)

lemma run_silent:
  "\<not> PAIRADMIN_INTEGRATION p \<or> pairadmin_callback w = None \<Longrightarrow>
   run p cs w = run_original p cs w"
proof (induction cs arbitrary: w)
  case Nil
  show ?case by simp
next
  case (Cons c cs)
  have step: "process p c w = process_original p c w"
    by (rule process_silent [OF Cons.prems])
  have "\<not> PAIRADMIN_INTEGRATION p \<or> pairadmin_callback (snd (process_original p c w)) = None"
    using Cons.prems by (simp add: process_original_callback)
  from Cons.IH [OF this] step show ?case
    by (simp add: split_def Let_def)
qed

section \<open>The event channel\<close>

text \<open>
  C1. In a build with the interception compiled in, while a handler \<open>h\<close> is registered:
  for every list of output and input chunks the engine processes, the calls through the
  callback pointer are exactly the events of the chunks, one per chunk, in the order of
  processing, each with the bytes and the length of its chunk; and the state of the
  observer is the result of giving \<open>h\<close> these events one after the other.
\<close>

theorem handler_observes_chunks_in_order:
  assumes "PAIRADMIN_INTEGRATION p" and "pairadmin_callback w = Some h"
  shows "callbacks (trace (snd (run p cs w))) = callbacks (trace w) @ map event_of cs \<and>
         observer (snd (run p cs w)) = foldl (deliver h) (observer w) (map event_of cs)"
proof
  show "callbacks (trace (snd (run p cs w))) = callbacks (trace w) @ map event_of cs"
    by (simp add: run_trace assms callbacks_append callbacks_actions_notify)
  show "observer (snd (run p cs w)) = foldl (deliver h) (observer w) (map event_of cs)"
    by (rule run_observer_registered [OF assms])
qed

text \<open>
  The end-to-end scenario: 4096 bytes of output in two chunks of 2048 reach the recording
  observer as two output events, in the original order.
\<close>

theorem handler_observes_chunks_in_order_witness:
  "PAIRADMIN_INTEGRATION (mock_engine True) \<and>
   pairadmin_callback listening = Some recorder \<and>
   observer (snd (run (mock_engine True)
       [Output (replicate 2048 7) 2048, Output (replicate 2048 9) 2048] listening)) =
     [(PAIRADMIN_EVENT_OUTPUT, replicate 2048 7, 2048),
      (PAIRADMIN_EVENT_OUTPUT, replicate 2048 9, 2048)]"
  using handler_observes_chunks_in_order [of "mock_engine True" listening recorder
      "[Output (replicate 2048 7) 2048, Output (replicate 2048 9) 2048]"]
  by (simp add: mock_engine_def listening_def fresh_def process_start_def
        pairadmin_set_callback_def deliver_def recorder_def)

text \<open>
  C4. While the callback pointer is null, as it is at process start, each hook returns
  the state it was given; a run of the patched engine is the run of the unpatched engine,
  no call through the pointer is made and the observer's state stays as it was.
\<close>

theorem no_handler_is_noop:
  assumes "pairadmin_callback w = None"
  shows "term_data_hook data len w = w \<and> ldisc_send_hook buf len' w = w \<and>
         run p cs w = run_original p cs w \<and>
         callbacks (trace (snd (run p cs w))) = callbacks (trace w) \<and>
         observer (snd (run p cs w)) = observer w \<and>
         pairadmin_callback (process_start t l obs) = None"
proof -
  have quiet: "\<not> PAIRADMIN_INTEGRATION p \<or> pairadmin_callback w = None"
    using assms by simp
  have "term_data_hook data len w = w" and "ldisc_send_hook buf len' w = w"
    using assms by (simp_all add: term_data_hook_def ldisc_send_hook_def)
  moreover have "run p cs w = run_original p cs w"
    by (rule run_silent [OF quiet])
  moreover have "callbacks (trace (snd (run p cs w))) = callbacks (trace w)"
    by (rule run_callbacks_silent [OF quiet])
  moreover have "observer (snd (run p cs w)) = observer w"
    by (rule run_observer_silent [OF quiet])
  moreover have "pairadmin_callback (process_start t l obs) = None"
    by (simp add: process_start_def)
  ultimately show ?thesis by blast
qed

theorem no_handler_is_noop_witness:
  "pairadmin_callback fresh = None \<and>
   run (mock_engine True) [Output [1, 2] 2, Input [3] 1] fresh =
   run_original (mock_engine True) [Output [1, 2] 2, Input [3] 1] fresh \<and>
   observer (snd (run (mock_engine True) [Output [1, 2] 2, Input [3] 1] fresh)) = []"
proof -
  have slot: "pairadmin_callback fresh = None"
    by (simp add: fresh_def process_start_def)
  have obs: "observer fresh = []"
    by (simp add: fresh_def process_start_def)
  from no_handler_is_noop [OF slot, of "[]" 0 "[]" 0 "mock_engine True"
      "[Output [1, 2] 2, Input [3] 1]" "[]" "[]" "[]"]
  show ?thesis using slot obs by metis
qed

text \<open>
  C9. In a build without \<^verbatim>\<open>PAIRADMIN_INTEGRATION\<close> both patched call sites are the
  unpatched ones, so every run is the run of the unpatched engine; no call through the
  callback pointer is made and the observer's state stays as it was, also when a handler
  is registered.
\<close>

theorem integration_disabled_is_original_engine:
  assumes "\<not> PAIRADMIN_INTEGRATION p"
  shows "term_data_modified p data len w = term_data_original p data len w \<and>
         ldisc_send_modified p buf len' w = ldisc_send_original p buf len' w \<and>
         run p cs w = run_original p cs w \<and>
         callbacks (trace (snd (run p cs w))) = callbacks (trace w) \<and>
         observer (snd (run p cs w)) = observer w"
proof -
  have quiet: "\<not> PAIRADMIN_INTEGRATION p \<or> pairadmin_callback w = None"
    using assms by simp
  have "term_data_modified p data len w = term_data_original p data len w"
    using assms by (simp add: term_data_modified_def)
  moreover have "ldisc_send_modified p buf len' w = ldisc_send_original p buf len' w"
    using assms by (simp add: ldisc_send_modified_def)
  moreover have "run p cs w = run_original p cs w"
    by (rule run_silent [OF quiet])
  moreover have "callbacks (trace (snd (run p cs w))) = callbacks (trace w)"
    by (rule run_callbacks_silent [OF quiet])
  moreover have "observer (snd (run p cs w)) = observer w"
    by (rule run_observer_silent [OF quiet])
  ultimately show ?thesis by blast
qed

theorem integration_disabled_is_original_engine_witness:
  "\<not> PAIRADMIN_INTEGRATION (mock_engine False) \<and>
   pairadmin_callback listening = Some recorder \<and>
   run (mock_engine False) [Output [1, 2] 2, Input [3] 1] listening =
   run_original (mock_engine False) [Output [1, 2] 2, Input [3] 1] listening \<and>
   observer (snd (run (mock_engine False) [Output [1, 2] 2, Input [3] 1] listening)) = []"
proof -
  have off: "\<not> PAIRADMIN_INTEGRATION (mock_engine False)"
    by (simp add: mock_engine_def)
  have slot: "pairadmin_callback listening = Some recorder" and obs: "observer listening = []"
    by (simp_all add: listening_def fresh_def process_start_def pairadmin_set_callback_def)
  from integration_disabled_is_original_engine [OF off, of "[]" 0 listening "[]" 0
      "[Output [1, 2] 2, Input [3] 1]"]
  show ?thesis using off slot obs by metis
qed

section \<open>The interception points\<close>

subsection \<open>Order of the calls in a record\<close>

lemma output_follows_step:
  assumes "output_follows_term_data tr"
  shows "output_follows_term_data (tr @ actions_of b c)"
  unfolding output_follows_term_data_def
proof (intro allI impI)
  fix i data len
  assume a: "i < length (tr @ actions_of b c) \<and>
             (tr @ actions_of b c) ! i = Callback PAIRADMIN_EVENT_OUTPUT data len"
  show "0 < i \<and> (tr @ actions_of b c) ! (i - 1) = TermData data len"
  proof (cases "i < length tr")
    case True
    with a have "tr ! i = Callback PAIRADMIN_EVENT_OUTPUT data len"
      by (simp add: nth_append)
    with assms True have "0 < i \<and> tr ! (i - 1) = TermData data len"
      unfolding output_follows_term_data_def by blast
    moreover from True have "i - 1 < length tr" by simp
    ultimately show ?thesis by (simp add: nth_append)
  next
    case False
    then obtain j where j: "i = length tr + j" by (metis le_add_diff_inverse not_less)
    with a have blk: "j < length (actions_of b c)"
        "actions_of b c ! j = Callback PAIRADMIN_EVENT_OUTPUT data len"
      by (simp_all add: nth_append)
    then have "j = 1 \<and> actions_of b c ! 0 = TermData data len"
      by (cases c; cases b; cases j) (auto simp add: nth_Cons split: nat.splits)
    with j show ?thesis by (simp add: nth_append)
  qed
qed

lemma exec_trace:
  "trace (snd (exec p x w)) = trace w \<or>
   (\<exists>b c. trace (snd (exec p x w)) = trace w @ actions_of b c)"
  by (cases x) (auto simp add: pairadmin_set_callback_def process_trace)

lemma session_output_follows:
  "output_follows_term_data (trace w) \<Longrightarrow>
   output_follows_term_data (trace (snd (session p xs w)))"
proof (induction xs arbitrary: w)
  case Nil
  then show ?case by simp
next
  case (Cons x xs)
  from exec_trace [of p x w] Cons.prems
  have "output_follows_term_data (trace (snd (exec p x w)))"
    by (auto simp add: output_follows_step)
  from Cons.IH [OF this] show ?case
    by (simp only: session_Cons_snd)
qed

text \<open>
  C6. The patched output call site calls \<^verbatim>\<open>term_data\<close> first, so that the terminal
  has processed the chunk, and only then the handler, with the buffer and length that
  \<^verbatim>\<open>term_data\<close> was given. In the record of any session started with an empty record,
  with handlers installed and removed at any moments, every output event is immediately
  preceded by the call of \<^verbatim>\<open>term_data\<close> with the same bytes and length.
\<close>

theorem output_event_follows_processing:
  "(PAIRADMIN_INTEGRATION p \<and> pairadmin_callback w = Some h \<longrightarrow>
      trace (term_data_modified p data len w) =
        trace w @ [TermData data len, Callback PAIRADMIN_EVENT_OUTPUT data len] \<and>
      terminal (term_data_modified p data len w) = term_data p (terminal w) data len \<and>
      observer (term_data_modified p data len w) =
        h PAIRADMIN_EVENT_OUTPUT data len (observer w)) \<and>
   (trace w = [] \<and> i < length (trace (snd (session p xs w))) \<and>
    trace (snd (session p xs w)) ! i = Callback PAIRADMIN_EVENT_OUTPUT d l \<longrightarrow>
      0 < i \<and> trace (snd (session p xs w)) ! (i - 1) = TermData d l)"
proof
  show "PAIRADMIN_INTEGRATION p \<and> pairadmin_callback w = Some h \<longrightarrow>
      trace (term_data_modified p data len w) =
        trace w @ [TermData data len, Callback PAIRADMIN_EVENT_OUTPUT data len] \<and>
      terminal (term_data_modified p data len w) = term_data p (terminal w) data len \<and>
      observer (term_data_modified p data len w) =
        h PAIRADMIN_EVENT_OUTPUT data len (observer w)"
    by (simp add: call_site_defs Let_def)
  show "trace w = [] \<and> i < length (trace (snd (session p xs w))) \<and>
    trace (snd (session p xs w)) ! i = Callback PAIRADMIN_EVENT_OUTPUT d l \<longrightarrow>
      0 < i \<and> trace (snd (session p xs w)) ! (i - 1) = TermData d l"
  proof
    assume a: "trace w = [] \<and> i < length (trace (snd (session p xs w))) \<and>
      trace (snd (session p xs w)) ! i = Callback PAIRADMIN_EVENT_OUTPUT d l"
    then have "output_follows_term_data (trace w)"
      by (simp add: output_follows_term_data_def)
    then have "output_follows_term_data (trace (snd (session p xs w)))"
      by (rule session_output_follows)
    with a show "0 < i \<and> trace (snd (session p xs w)) ! (i - 1) = TermData d l"
      unfolding output_follows_term_data_def by blast
  qed
qed

theorem output_event_follows_processing_witness:
  "PAIRADMIN_INTEGRATION (mock_engine True) \<and>
   pairadmin_callback listening = Some recorder \<and>
   trace listening = [] \<and>
   term_data_modified (mock_engine True) [104, 105] 2 listening =
     listening\<lparr>terminal := [104, 105],
        observer := [(PAIRADMIN_EVENT_OUTPUT, [104, 105], 2)],
        trace := [TermData [104, 105] 2, Callback PAIRADMIN_EVENT_OUTPUT [104, 105] 2]\<rparr> \<and>
   (1::nat) < length (trace (snd (session (mock_engine True) [Chunk (Output [104, 105] 2)] listening))) \<and>
   trace (snd (session (mock_engine True) [Chunk (Output [104, 105] 2)] listening)) ! 1 =
     Callback PAIRADMIN_EVENT_OUTPUT [104, 105] 2 \<and>
   trace (snd (session (mock_engine True) [Chunk (Output [104, 105] 2)] listening)) ! (1 - 1) =
     TermData [104, 105] 2"
proof -
  have on: "PAIRADMIN_INTEGRATION (mock_engine True)"
    by (simp add: mock_engine_def)
  have slot: "pairadmin_callback listening = Some recorder" and tr: "trace listening = []"
    by (simp_all add: listening_def fresh_def process_start_def pairadmin_set_callback_def)
  have r: "term_data_modified (mock_engine True) [104, 105] 2 listening =
     listening\<lparr>terminal := [104, 105],
        observer := [(PAIRADMIN_EVENT_OUTPUT, [104, 105], 2)],
        trace := [TermData [104, 105] 2, Callback PAIRADMIN_EVENT_OUTPUT [104, 105] 2]\<rparr>"
    by (simp add: call_site_defs Let_def mock_engine_def listening_def fresh_def
          process_start_def pairadmin_set_callback_def recorder_def)
  have at: "(1::nat) < length (trace (snd (session (mock_engine True) [Chunk (Output [104, 105] 2)] listening)))"
      "trace (snd (session (mock_engine True) [Chunk (Output [104, 105] 2)] listening)) ! 1 =
         Callback PAIRADMIN_EVENT_OUTPUT [104, 105] 2"
    by (simp_all add: r)
  from output_event_follows_processing [of "mock_engine True" listening recorder "[104, 105]" 2
      1 "[Chunk (Output [104, 105] 2)]" "[104, 105]" 2] tr at
  have "trace (snd (session (mock_engine True) [Chunk (Output [104, 105] 2)] listening)) ! (1 - 1) =
     TermData [104, 105] 2"
    by blast
  with on slot tr r at show ?thesis by blast
qed

section \<open>Registration\<close>

text \<open>
  C8. After any session, a call \<^verbatim>\<open>pairadmin_set_callback(c)\<close> followed by any chunks
  leaves \<open>c\<close> in the callback pointer: the latest call decides, a handler replaces the
  one before it, \<^verbatim>\<open>NULL\<close> clears. The pointer holds at most one handler.
\<close>

theorem latest_set_callback_wins:
  "pairadmin_callback (snd (session p (xs @ SetCallback c # map Chunk cs) w)) = c \<and>
   card (set_option (pairadmin_callback (snd (session p xs w)))) \<le> 1"
proof
  show "pairadmin_callback (snd (session p (xs @ SetCallback c # map Chunk cs) w)) = c"
    by (simp add: session_append session_Cons_snd session_chunks run_callback
          pairadmin_set_callback_def del: session.simps)
  show "card (set_option (pairadmin_callback (snd (session p xs w)))) \<le> 1"
    by (cases "pairadmin_callback (snd (session p xs w))") simp_all
qed

theorem latest_set_callback_wins_witness:
  "pairadmin_callback (snd (session (mock_engine True)
      ([SetCallback None, Chunk (Input [3] 1), SetCallback (Some (\<lambda>kind data len log. log))] @
       SetCallback (Some recorder) # map Chunk [Output [1, 2] 2]) fresh)) = Some recorder \<and>
   pairadmin_callback (snd (session (mock_engine True)
      ([SetCallback (Some recorder)] @ SetCallback None # map Chunk [Output [1, 2] 2]) fresh)) = None"
  using latest_set_callback_wins [of "mock_engine True"
      "[SetCallback None, Chunk (Input [3] 1), SetCallback (Some (\<lambda>kind data len log. log))]"
      "Some recorder" "[Output [1, 2] 2]" fresh]
    latest_set_callback_wins [of "mock_engine True" "[SetCallback (Some recorder)]" None
      "[Output [1, 2] 2]" fresh]
  by blast

text \<open>
  C10. \<^verbatim>\<open>pairadmin_set_callback(c)\<close> stores \<open>c\<close> in the callback pointer for every
  \<open>c\<close>, \<^verbatim>\<open>NULL\<close> included, and changes nothing else. Among the operations of a
  session, a step that finds a handler installed and leaves the pointer null is the call
  \<^verbatim>\<open>pairadmin_set_callback(NULL)\<close>.
\<close>

theorem set_callback_stores_any_value:
  "pairadmin_callback (pairadmin_set_callback c w) = c \<and>
   terminal (pairadmin_set_callback c w) = terminal w \<and>
   ldisc (pairadmin_set_callback c w) = ldisc w \<and>
   observer (pairadmin_set_callback c w) = observer w \<and>
   trace (pairadmin_set_callback c w) = trace w \<and>
   (pairadmin_callback w \<noteq> None \<and> pairadmin_callback (snd (exec p x w)) = None \<longrightarrow>
      x = SetCallback None)"
proof -
  have "pairadmin_callback w \<noteq> None \<and> pairadmin_callback (snd (exec p x w)) = None \<longrightarrow>
        x = SetCallback None"
    by (cases x) (auto simp add: pairadmin_set_callback_def process_callback)
  then show ?thesis
    by (simp add: pairadmin_set_callback_def)
qed

theorem set_callback_stores_any_value_witness:
  "pairadmin_callback (pairadmin_set_callback (Some recorder) fresh) = Some recorder \<and>
   pairadmin_callback (pairadmin_set_callback None listening) = None \<and>
   pairadmin_callback listening \<noteq> None \<and>
   pairadmin_callback (snd (exec (mock_engine True) (SetCallback None) listening)) = None"
proof -
  have slot: "pairadmin_callback listening \<noteq> None"
    by (simp add: listening_def pairadmin_set_callback_def)
  have cleared: "pairadmin_callback (snd (exec (mock_engine True) (SetCallback None) listening)) = None"
    by (simp add: pairadmin_set_callback_def)
  from set_callback_stores_any_value [of "Some recorder" fresh "mock_engine True" "SetCallback None"]
    set_callback_stores_any_value [of None listening "mock_engine True" "SetCallback None"]
  show ?thesis using slot cleared by blast
qed

section \<open>The window handle\<close>

lemma window_queries: "window_session td (replicate n Query) s = (replicate n (hwnd_terminal s), s)"
  by (induction n) (simp_all add: putty_get_terminal_hwnd_def)

lemma window_session_append:
  "window_session td (xs @ ys) s =
     (fst (window_session td xs s) @ fst (window_session td ys (snd (window_session td xs s))),
      snd (window_session td ys (snd (window_session td xs s))))"
  by (induction xs arbitrary: s) (simp_all add: split_def Let_def)

text \<open>
  C5, as stated, fails after destruction: with an engine whose teardown assigns nothing
  to \<^verbatim>\<open>hwnd_terminal\<close>, a query after the window with handle 42 was created and
  destroyed still returns 42.
\<close>

theorem surface_handle_stale_after_destroy:
  "putty_get_terminal_hwnd
     (snd (window_session teardown_keeps [WindowCreated 42, WindowDestroyed] window_start)) \<noteq> NULL"
  by (simp add: teardown_keeps_def window_start_def putty_get_terminal_hwnd_def NULL_def)

text \<open>
  C5, amended. Queries before any window was created return \<^verbatim>\<open>NULL\<close>. After the
  engine has stored the handle \<open>h\<close> of the window it created, every query returns \<open>h\<close>.
  After the window is destroyed, every query returns what the engine's teardown left in
  \<^verbatim>\<open>hwnd_terminal\<close>: \<^verbatim>\<open>putty_get_terminal_hwnd\<close> reads the variable and neither resets
  nor checks it.
\<close>

theorem surface_handle_follows_engine_stores:
  "fst (window_session td (replicate n Query) window_start) = replicate n NULL \<and>
   fst (window_session td (pre @ WindowCreated h # replicate n Query) s) =
     fst (window_session td pre s) @ replicate n h \<and>
   fst (window_session td (pre @ WindowDestroyed # replicate n Query) s) =
     fst (window_session td pre s) @
     replicate n (td (hwnd_terminal (snd (window_session td pre s))))"
  by (simp add: window_session_append window_queries window_start_def split_def Let_def)

theorem surface_handle_follows_engine_stores_witness:
  "fst (window_session teardown_clears [Query, WindowCreated 42, Query, Query] window_start) =
     [NULL, 42, 42] \<and>
   fst (window_session teardown_clears [WindowCreated 42, WindowDestroyed, Query, Query] window_start) =
     [NULL, NULL] \<and>
   fst (window_session teardown_keeps [WindowCreated 42, WindowDestroyed, Query, Query] window_start) =
     [42, 42]"
  using surface_handle_follows_engine_stores [of teardown_clears 1 "[Query]" 42 window_start]
    surface_handle_follows_engine_stores [of teardown_clears 2 "[WindowCreated 42]" 42 window_start]
    surface_handle_follows_engine_stores [of teardown_keeps 2 "[WindowCreated 42]" 42 window_start]
  by (simp add: teardown_keeps_def teardown_clears_def window_start_def
        putty_get_terminal_hwnd_def numeral_2_eq_2)

section \<open>Handlers as code\<close>

lemmas c_defs = c_term_data_modified_def c_ldisc_send_modified_def c_hook_def call_through_def
  c_pairadmin_set_callback_def

lemma abstract_trace_append: "abstract_trace (xs @ ys) = abstract_trace xs @ abstract_trace ys"
  by (induction xs rule: abstract_trace.induct) simp_all

lemma c_callbacks_append: "c_callbacks (xs @ ys) = c_callbacks xs @ c_callbacks ys"
  by (induction xs rule: c_callbacks.induct) simp_all

lemma c_engine_calls_append: "c_engine_calls (xs @ ys) = c_engine_calls xs @ c_engine_calls ys"
  by (induction xs rule: c_engine_calls.induct) simp_all

lemma racing_stores_fields:
  "c_terminal (racing_stores fs s) = c_terminal s"
  "c_ldisc (racing_stores fs s) = c_ldisc s"
  "c_observer (racing_stores fs s) = c_observer s"
  "c_callbacks (c_trace (racing_stores fs s)) = c_callbacks (c_trace s)"
  "c_engine_calls (c_trace (racing_stores fs s)) = c_engine_calls (c_trace s)"
  by (induction fs arbitrary: s)
     (simp_all add: c_pairadmin_set_callback_def c_callbacks_append c_engine_calls_append)

lemma racing_stores_null:
  "c_pairadmin_callback s = 0 \<Longrightarrow> \<not> list_ex (\<lambda>f. f \<noteq> 0) fs \<Longrightarrow>
   c_pairadmin_callback (racing_stores fs s) = 0"
  by (induction fs arbitrary: s) (simp_all add: c_pairadmin_set_callback_def)

lemma c_session_Cons:
  "c_exec p code x s = Some (rs, s1) \<Longrightarrow> c_session p code xs s1 = Some (rs', s2) \<Longrightarrow>
   c_session p code (x # xs) s = Some (rs @ rs', s2)"
  by simp

subsection \<open>The sections above as a special case\<close>

text \<open>
  With one handler that keeps to its type at every address and with no store inside a
  call site, the setter and the call sites of this section are those of the sections
  above.
\<close>

lemma abstract_set_callback:
  "abstraction h (c_pairadmin_set_callback f s) =
     pairadmin_set_callback (if f = 0 then None else Some h) (abstraction h s)"
  by (simp add: abstraction_def c_pairadmin_set_callback_def pairadmin_set_callback_def
        abstract_trace_append)

lemma abstract_term_data:
  assumes "\<forall>f. f \<noteq> 0 \<longrightarrow> code f = as_code h"
  shows "map_option (abstraction h) (c_term_data_modified p code [] [] data len s) =
           Some (term_data_modified p data len (abstraction h s))"
  using assms
  by (simp add: c_defs call_site_defs abstraction_def as_code_def abstract_trace_append Let_def)

lemma abstract_ldisc_send:
  assumes "\<forall>f. f \<noteq> 0 \<longrightarrow> code f = as_code h"
  shows "map_option (\<lambda>(r, s'). (r, abstraction h s')) (c_ldisc_send_modified p code [] [] buf len s) =
           Some (ldisc_send_modified p buf len (abstraction h s))"
proof -
  obtain r l' where sent: "ldisc_send p (c_ldisc s) buf len = (r, l')"
    by (cases "ldisc_send p (c_ldisc s) buf len")
  show ?thesis
  proof (cases "PAIRADMIN_INTEGRATION p \<and> c_pairadmin_callback s \<noteq> 0")
    case True
    with assms have "code (c_pairadmin_callback s) = as_code h" by simp
    with True sent show ?thesis
      by (simp add: c_defs call_site_defs abstraction_def as_code_def abstract_trace_append Let_def)
  next
    case False
    with sent show ?thesis
      by (auto simp add: c_defs call_site_defs abstraction_def abstract_trace_append Let_def)
  qed
qed

subsection \<open>The input point\<close>

text \<open>
  C2, as stated, fails for what the handler may do. The engine is about to send the
  bytes \<^verbatim>\<open>ls\<close>. With the handler at address 2 registered, which writes through
  \<^verbatim>\<open>data\<close>, the line discipline sends \<^verbatim>\<open>Xs\<close>: the handler has altered the
  transmission. With the handler at address 3 registered, which does not return, the
  call site never reaches \<^verbatim>\<open>ldisc_send\<close>: the handler has blocked it.
\<close>

theorem handler_can_alter_or_block_transmission:
  "map_option (c_ldisc \<circ> snd)
     (c_ldisc_send_modified (mock_engine True) handlers [] [] [108, 115] 2
        (c_pairadmin_set_callback 2 c_fresh)) = Some [88, 115] \<and>
   c_ldisc_send_modified (mock_engine True) handlers [] [] [108, 115] 2
        (c_pairadmin_set_callback 3 c_fresh) = None"
  by (simp add: c_defs c_fresh_def c_process_start_def mock_engine_def handlers_def
        scribbler_def spinner_def Let_def)

text \<open>
  C2, amended. In a build with the interception compiled in, with the function at \<open>f\<close>
  registered: the input call site calls it first, with the input kind and the very buffer
  and length it was given, before anything is sent; if the call returns, the call site
  then calls \<^verbatim>\<open>ldisc_send\<close> on the buffer as the handler left it, and neither the
  pointer nor the observer's state the handler leaves has any part in what is sent or
  returned. So for a handler that returns and has left the buffer as it was, the
  transmission follows with the same bytes and length, and the value returned and the
  line discipline are those of the engine's own \<^verbatim>\<open>ldisc_send\<close>.
\<close>

theorem input_event_delivered_then_transmitted:
  assumes "PAIRADMIN_INTEGRATION p" and "c_pairadmin_callback s = f" and "f \<noteq> 0"
  shows "c_ldisc_send_modified p code [] [] buf len s =
           (case code f PAIRADMIN_EVENT_INPUT buf len (f, c_observer s) of
              None \<Rightarrow> None
            | Some (buf', callback', obs') \<Rightarrow>
                Some (fst (ldisc_send p (c_ldisc s) buf' len),
                      s\<lparr>c_ldisc := snd (ldisc_send p (c_ldisc s) buf' len),
                        c_pairadmin_callback := callback', c_observer := obs',
                        c_trace := c_trace s @
                          [CCallback f PAIRADMIN_EVENT_INPUT buf len, CLdiscSend buf' len]\<rparr>)) \<and>
         (code f PAIRADMIN_EVENT_INPUT buf len (f, c_observer s) = Some (buf, callback', obs') \<longrightarrow>
            (\<exists>s'. c_ldisc_send_modified p code [] [] buf len s =
                     Some (fst (ldisc_send p (c_ldisc s) buf len), s') \<and>
                   c_ldisc s' = snd (ldisc_send p (c_ldisc s) buf len) \<and>
                   c_terminal s' = c_terminal s \<and>
                   c_trace s' = c_trace s @
                     [CCallback f PAIRADMIN_EVENT_INPUT buf len, CLdiscSend buf len]))"
proof
  show first: "c_ldisc_send_modified p code [] [] buf len s =
           (case code f PAIRADMIN_EVENT_INPUT buf len (f, c_observer s) of
              None \<Rightarrow> None
            | Some (buf', callback', obs') \<Rightarrow>
                Some (fst (ldisc_send p (c_ldisc s) buf' len),
                      s\<lparr>c_ldisc := snd (ldisc_send p (c_ldisc s) buf' len),
                        c_pairadmin_callback := callback', c_observer := obs',
                        c_trace := c_trace s @
                          [CCallback f PAIRADMIN_EVENT_INPUT buf len, CLdiscSend buf' len]\<rparr>))"
    using assms by (simp add: c_defs Let_def split: option.splits prod.splits)
  show "code f PAIRADMIN_EVENT_INPUT buf len (f, c_observer s) = Some (buf, callback', obs') \<longrightarrow>
            (\<exists>s'. c_ldisc_send_modified p code [] [] buf len s =
                     Some (fst (ldisc_send p (c_ldisc s) buf len), s') \<and>
                   c_ldisc s' = snd (ldisc_send p (c_ldisc s) buf len) \<and>
                   c_terminal s' = c_terminal s \<and>
                   c_trace s' = c_trace s @
                     [CCallback f PAIRADMIN_EVENT_INPUT buf len, CLdiscSend buf len])"
    by (simp add: first)
qed

theorem input_event_delivered_then_transmitted_witness:
  "PAIRADMIN_INTEGRATION (mock_engine True) \<and>
   c_pairadmin_callback (c_pairadmin_set_callback 1 c_fresh) = 1 \<and> (1::fnptr) \<noteq> 0 \<and>
   handlers 1 PAIRADMIN_EVENT_INPUT [108, 115, 32, 45, 108, 97, 10] 7
     (1, c_observer (c_pairadmin_set_callback 1 c_fresh)) =
     Some ([108, 115, 32, 45, 108, 97, 10], 1,
           [(PAIRADMIN_EVENT_INPUT, [108, 115, 32, 45, 108, 97, 10], 7)]) \<and>
   (\<exists>s'. c_ldisc_send_modified (mock_engine True) handlers [] []
            [108, 115, 32, 45, 108, 97, 10] 7 (c_pairadmin_set_callback 1 c_fresh) =
            Some (7, s') \<and>
          c_ldisc s' = [108, 115, 32, 45, 108, 97, 10] \<and>
          c_trace s' = [CStore 1,
            CCallback 1 PAIRADMIN_EVENT_INPUT [108, 115, 32, 45, 108, 97, 10] 7,
            CLdiscSend [108, 115, 32, 45, 108, 97, 10] 7])"
proof -
  let ?s = "c_pairadmin_set_callback 1 c_fresh :: (byte list, byte list, event list) c_world"
  have on: "PAIRADMIN_INTEGRATION (mock_engine True)"
    by (simp add: mock_engine_def)
  have slot: "c_pairadmin_callback ?s = 1" and nz: "(1::fnptr) \<noteq> 0"
    by (simp_all add: c_pairadmin_set_callback_def)
  have ret: "handlers 1 PAIRADMIN_EVENT_INPUT [108, 115, 32, 45, 108, 97, 10] 7
     (1, c_observer ?s) =
     Some ([108, 115, 32, 45, 108, 97, 10], 1,
           [(PAIRADMIN_EVENT_INPUT, [108, 115, 32, 45, 108, 97, 10], 7)])"
    by (simp add: handlers_def keeper_def c_pairadmin_set_callback_def c_fresh_def
          c_process_start_def)
  have eng: "ldisc_send (mock_engine True) (c_ldisc ?s) [108, 115, 32, 45, 108, 97, 10] 7 =
               (7, [108, 115, 32, 45, 108, 97, 10])"
    and tr: "c_trace ?s = [CStore 1]"
    by (simp_all add: mock_engine_def c_pairadmin_set_callback_def c_fresh_def c_process_start_def)
  from input_event_delivered_then_transmitted [OF on slot nz,
      of handlers "[108, 115, 32, 45, 108, 97, 10]" 7 1
         "[(PAIRADMIN_EVENT_INPUT, [108, 115, 32, 45, 108, 97, 10], 7)]"] ret
  have "\<exists>s'. c_ldisc_send_modified (mock_engine True) handlers [] []
            [108, 115, 32, 45, 108, 97, 10] 7 ?s =
            Some (fst (ldisc_send (mock_engine True) (c_ldisc ?s) [108, 115, 32, 45, 108, 97, 10] 7), s') \<and>
          c_ldisc s' = snd (ldisc_send (mock_engine True) (c_ldisc ?s) [108, 115, 32, 45, 108, 97, 10] 7) \<and>
          c_terminal s' = c_terminal ?s \<and>
          c_trace s' = c_trace ?s @
            [CCallback 1 PAIRADMIN_EVENT_INPUT [108, 115, 32, 45, 108, 97, 10] 7,
             CLdiscSend [108, 115, 32, 45, 108, 97, 10] 7]"
    by blast
  then have "\<exists>s'. c_ldisc_send_modified (mock_engine True) handlers [] []
            [108, 115, 32, 45, 108, 97, 10] 7 ?s = Some (7, s') \<and>
          c_ldisc s' = [108, 115, 32, 45, 108, 97, 10] \<and>
          c_trace s' = [CStore 1,
            CCallback 1 PAIRADMIN_EVENT_INPUT [108, 115, 32, 45, 108, 97, 10] 7,
            CLdiscSend [108, 115, 32, 45, 108, 97, 10] 7]"
    unfolding eng tr fst_conv snd_conv append.simps by blast
  with on slot nz ret show ?thesis by blast
qed

subsection \<open>What the engine shows\<close>

lemma c_exec_set_view:
  "c_engine_view (c_pairadmin_set_callback f s) = c_engine_view s"
  by (simp add: c_engine_view_def c_pairadmin_set_callback_def c_engine_calls_append)

lemma c_exec_chunk_view:
  assumes "returns_unchanged code"
  shows "\<exists>s'. c_exec p code (CChunk c [] []) s = Some (fst (engine_process p c (c_engine_view s)), s') \<and>
              c_engine_view s' = snd (engine_process p c (c_engine_view s))"
proof (cases c)
  case (Output data len)
  from assms obtain callback' obs' where
    "code (c_pairadmin_callback s) PAIRADMIN_EVENT_OUTPUT data len
       (c_pairadmin_callback s, c_observer s) = Some (data, callback', obs')"
    unfolding returns_unchanged_def by blast
  with Output show ?thesis
    by (simp add: c_defs c_engine_view_def c_engine_calls_append Let_def)
next
  case (Input buf len)
  from assms obtain callback' obs' where
    "code (c_pairadmin_callback s) PAIRADMIN_EVENT_INPUT buf len
       (c_pairadmin_callback s, c_observer s) = Some (buf, callback', obs')"
    unfolding returns_unchanged_def by blast
  moreover obtain r l' where "ldisc_send p (c_ldisc s) buf len = (r, l')"
    by (cases "ldisc_send p (c_ldisc s) buf len")
  ultimately show ?thesis using Input
    by (simp add: c_defs c_engine_view_def c_engine_calls_append Let_def)
qed

lemma c_session_view:
  assumes "returns_unchanged code" and "\<forall>x \<in> set xs. sequential x"
  shows "\<exists>s'. c_session p code xs s =
                Some (fst (engine_run p (c_chunks_of xs) (c_engine_view s)), s') \<and>
              c_engine_view s' = snd (engine_run p (c_chunks_of xs) (c_engine_view s))"
  using assms(2)
proof (induction xs arbitrary: s)
  case Nil
  show ?case by simp
next
  case (Cons x xs)
  from Cons.prems have rest: "\<forall>x \<in> set xs. sequential x" by simp
  show ?case
  proof (cases x)
    case (CSetCallback f)
    from Cons.IH [OF rest, of "c_pairadmin_set_callback f s"]
    show ?thesis using CSetCallback
      by (auto simp add: c_exec_set_view)
  next
    case (CChunk c stores1 stores2)
    with Cons.prems have x: "x = CChunk c [] []" by simp
    from c_exec_chunk_view [OF assms(1), of p c s] obtain s1 where
      step: "c_exec p code (CChunk c [] []) s = Some (fst (engine_process p c (c_engine_view s)), s1)"
      and view: "c_engine_view s1 = snd (engine_process p c (c_engine_view s))"
      by blast
    from Cons.IH [OF rest, of s1] obtain s2 where
      run: "c_session p code xs s1 = Some (fst (engine_run p (c_chunks_of xs) (c_engine_view s1)), s2)"
      and view2: "c_engine_view s2 = snd (engine_run p (c_chunks_of xs) (c_engine_view s1))"
      by blast
    from c_session_Cons [OF step run] view view2 x show ?thesis
      by (simp add: split_def Let_def)
  qed
qed

text \<open>
  C3, as stated, fails. The same input chunk \<^verbatim>\<open>ls\<close> from process start: with the
  handler at address 2 registered the engine transmits \<^verbatim>\<open>Xs\<close>, with no handler it
  transmits \<^verbatim>\<open>ls\<close>; with the handler at address 3 registered the engine does not
  get past the call site; and with the well-behaved handler at address 1 registered and
  an unregistering store between the test of the pointer and the call, the engine calls
  through a null pointer.
\<close>

theorem registered_handler_changes_engine_behaviour:
  "map_option (c_engine_view \<circ> snd)
     (c_session (mock_engine True) handlers
        [CSetCallback 2, CChunk (Input [108, 115] 2) [] []] c_fresh) =
     Some ([], [88, 115], [CLdiscSend [88, 115] 2]) \<and>
   map_option (c_engine_view \<circ> snd)
     (c_session (mock_engine True) handlers
        [CChunk (Input [108, 115] 2) [] []] c_fresh) =
     Some ([], [108, 115], [CLdiscSend [108, 115] 2]) \<and>
   c_session (mock_engine True) handlers
        [CSetCallback 3, CChunk (Input [108, 115] 2) [] []] c_fresh = None \<and>
   c_session (mock_engine True) handlers
        [CSetCallback 1, CChunk (Input [108, 115] 2) [0] []] c_fresh = None"
  by (simp add: c_defs c_engine_view_def c_fresh_def c_process_start_def mock_engine_def
        handlers_def scribbler_def spinner_def Let_def)

text \<open>
  C3, amended. Let every handler return and leave the buffer as it found it, and let no
  store fall inside a call site. Take two states that the engine cannot tell apart and
  two sessions that handle the same chunks in the same order. Whatever handlers are
  installed or removed in either, by the observer or by a handler itself, both sessions
  run to their end, the input call site returns the same values in both, and the engine
  cannot tell the final states apart: the bridge passes nothing from a handler back to the
  engine.
\<close>

theorem engine_behaviour_independent_of_contained_handlers:
  assumes "returns_unchanged code"
    and "\<forall>x \<in> set xs1. sequential x" and "\<forall>x \<in> set xs2. sequential x"
    and "c_engine_view s1 = c_engine_view s2" and "c_chunks_of xs1 = c_chunks_of xs2"
  shows "\<exists>rs t1 t2. c_session p code xs1 s1 = Some (rs, t1) \<and>
                    c_session p code xs2 s2 = Some (rs, t2) \<and>
                    c_engine_view t1 = c_engine_view t2"
proof -
  from c_session_view [OF assms(1,2), of p s1] obtain t1 where
    one: "c_session p code xs1 s1 =
            Some (fst (engine_run p (c_chunks_of xs1) (c_engine_view s1)), t1)"
    and v1: "c_engine_view t1 = snd (engine_run p (c_chunks_of xs1) (c_engine_view s1))"
    by blast
  from c_session_view [OF assms(1,3), of p s2] obtain t2 where
    two: "c_session p code xs2 s2 =
            Some (fst (engine_run p (c_chunks_of xs2) (c_engine_view s2)), t2)"
    and v2: "c_engine_view t2 = snd (engine_run p (c_chunks_of xs2) (c_engine_view s2))"
    by blast
  from one two v1 v2 assms(4,5) show ?thesis by simp
qed

theorem engine_behaviour_independent_of_contained_handlers_witness:
  "returns_unchanged contained_handlers \<and>
   sequential (CSetCallback 2) \<and> sequential (CChunk (Input [108, 115] 2) [] []) \<and>
   sequential (CChunk (Output [1, 2] 2) [] []) \<and>
   c_engine_view c_fresh = c_engine_view (c_pairadmin_set_callback 1 c_fresh) \<and>
   c_chunks_of [CSetCallback 2, CChunk (Input [108, 115] 2) [] [], CChunk (Output [1, 2] 2) [] []] =
   c_chunks_of [CChunk (Input [108, 115] 2) [] [], CSetCallback 0, CChunk (Output [1, 2] 2) [] []] \<and>
   (\<exists>rs t1 t2.
      c_session (mock_engine True) contained_handlers
        [CSetCallback 2, CChunk (Input [108, 115] 2) [] [], CChunk (Output [1, 2] 2) [] []]
        c_fresh = Some (rs, t1) \<and>
      c_session (mock_engine True) contained_handlers
        [CChunk (Input [108, 115] 2) [] [], CSetCallback 0, CChunk (Output [1, 2] 2) [] []]
        (c_pairadmin_set_callback 1 c_fresh) = Some (rs, t2) \<and>
      c_engine_view t1 = c_engine_view t2)"
proof -
  have contract: "returns_unchanged contained_handlers"
    by (simp add: returns_unchanged_def contained_handlers_def keeper_def one_shot_def)
  have seq1: "\<forall>x \<in> set [CSetCallback 2, CChunk (Input [108, 115] 2) [] [],
      CChunk (Output [1, 2] 2) [] []]. sequential x"
    and seq2: "\<forall>x \<in> set [CChunk (Input [108, 115] 2) [] [], CSetCallback 0,
      CChunk (Output [1, 2] 2) [] []]. sequential x"
    by simp_all
  have view: "c_engine_view (c_fresh :: (byte list, byte list, event list) c_world) =
      c_engine_view (c_pairadmin_set_callback 1 c_fresh)"
    by (simp add: c_engine_view_def c_pairadmin_set_callback_def c_engine_calls_append)
  have chunks: "c_chunks_of [CSetCallback 2, CChunk (Input [108, 115] 2) [] [],
        CChunk (Output [1, 2] 2) [] []] =
      c_chunks_of [CChunk (Input [108, 115] 2) [] [], CSetCallback 0,
        CChunk (Output [1, 2] 2) [] []]"
    by simp
  from engine_behaviour_independent_of_contained_handlers
      [OF contract seq1 seq2 view chunks, of "mock_engine True"]
  show ?thesis using contract view chunks by simp
qed

section \<open>The unsynchronised pointer\<close>

lemma c_exec_unregistered:
  assumes "c_pairadmin_callback s = 0" and "\<not> c_registers x"
  shows "\<exists>rs s'. c_exec p code x s = Some (rs, s') \<and> c_pairadmin_callback s' = 0 \<and>
           c_observer s' = c_observer s \<and> c_callbacks (c_trace s') = c_callbacks (c_trace s)"
proof (cases x)
  case (CSetCallback f)
  with assms show ?thesis
    by (simp add: c_pairadmin_set_callback_def c_callbacks_append)
next
  case (CChunk c stores1 stores2)
  with assms have quiet: "\<not> list_ex (\<lambda>f. f \<noteq> 0) (stores1 @ stores2)" by simp
  show ?thesis
  proof (cases c)
    case (Output data len)
    let ?s1 = "s\<lparr>c_terminal := term_data p (c_terminal s) data len,
                  c_trace := c_trace s @ [CTermData data len]\<rparr>"
    have "c_pairadmin_callback ?s1 = 0" using assms(1) by simp
    from racing_stores_null [OF this quiet] assms(1) CChunk Output show ?thesis
      by (simp add: c_term_data_modified_def c_hook_def racing_stores_fields
            c_callbacks_append Let_def)
  next
    case (Input buf len)
    obtain r l' where sent: "ldisc_send p (c_ldisc s) buf len = (r, l')"
      by (cases "ldisc_send p (c_ldisc s) buf len")
    from racing_stores_null [OF assms(1) quiet] assms(1) CChunk Input sent show ?thesis
      by (simp add: c_ldisc_send_modified_def c_hook_def racing_stores_fields
            c_callbacks_append Let_def)
  qed
qed

lemma c_session_unregistered:
  assumes "c_pairadmin_callback s = 0" and "\<forall>x \<in> set xs. \<not> c_registers x"
  shows "\<exists>rs s'. c_session p code xs s = Some (rs, s') \<and> c_pairadmin_callback s' = 0 \<and>
           c_observer s' = c_observer s \<and> c_callbacks (c_trace s') = c_callbacks (c_trace s)"
  using assms
proof (induction xs arbitrary: s)
  case Nil
  then show ?case by simp
next
  case (Cons x xs)
  from Cons.prems have here: "\<not> c_registers x" and rest: "\<forall>x \<in> set xs. \<not> c_registers x"
    by simp_all
  from c_exec_unregistered [OF Cons.prems(1) here, of p code] obtain rs s1 where
    step: "c_exec p code x s = Some (rs, s1)" and null: "c_pairadmin_callback s1 = 0"
    and same: "c_observer s1 = c_observer s" "c_callbacks (c_trace s1) = c_callbacks (c_trace s)"
    by blast
  from Cons.IH [OF null rest] obtain rs' s2 where
    run: "c_session p code xs s1 = Some (rs', s2)" and null2: "c_pairadmin_callback s2 = 0"
    and same2: "c_observer s2 = c_observer s1" "c_callbacks (c_trace s2) = c_callbacks (c_trace s1)"
    by blast
  from c_session_Cons [OF step run] null2 same same2 show ?case by simp
qed

text \<open>
  C7, as stated, fails for a call site that is under way. The handler at address 1 is
  registered; the engine processes an output chunk and reads the pointer; the call
  \<^verbatim>\<open>pairadmin_set_callback(NULL)\<close> of another thread returns; the handler runs. The
  record has the notification after the store of \<^verbatim>\<open>NULL\<close>.
\<close>

theorem notification_after_unregister_returned:
  "map_option (c_trace \<circ> snd)
     (c_session (mock_engine True) handlers
        [CSetCallback 1, CChunk (Output [1, 2] 2) [] [0]] c_fresh) =
     Some [CStore 1, CTermData [1, 2] 2, CStore 0, CCallback 1 PAIRADMIN_EVENT_OUTPUT [1, 2] 2]"
  by (simp add: c_defs c_fresh_def c_process_start_def mock_engine_def handlers_def keeper_def
        Let_def)

text \<open>
  C7, amended. Once \<^verbatim>\<open>pairadmin_set_callback(NULL)\<close> has returned, and as long as no
  store installs a handler again: every call site that tests the pointer after that
  return delivers no notification. Over every later session, also one with further
  stores of \<^verbatim>\<open>NULL\<close> inside its call sites, each call site returns, no call through
  the pointer is made and the observer's state stays as it was. Only a call site that had
  tested the pointer before the return can still notify.
\<close>

theorem no_notification_for_chunks_after_unregister:
  assumes "\<forall>x \<in> set xs. \<not> c_registers x"
  shows "\<exists>rs s'. c_session p code xs (c_pairadmin_set_callback 0 s) = Some (rs, s') \<and>
           c_pairadmin_callback s' = 0 \<and> c_observer s' = c_observer s \<and>
           c_callbacks (c_trace s') = c_callbacks (c_trace s)"
proof -
  have "c_pairadmin_callback (c_pairadmin_set_callback 0 s) = 0"
    by (simp add: c_pairadmin_set_callback_def)
  from c_session_unregistered [OF this assms, of p code] show ?thesis
    by (simp add: c_pairadmin_set_callback_def c_callbacks_append)
qed

theorem no_notification_for_chunks_after_unregister_witness:
  "\<not> c_registers (CChunk (Output [1, 2] 2) [] [0]) \<and> \<not> c_registers (CSetCallback 0) \<and>
   \<not> c_registers (CChunk (Input [3] 1) [0] []) \<and>
   c_pairadmin_callback (c_pairadmin_set_callback 1 c_fresh) = 1 \<and>
   (\<exists>rs s'. c_session (mock_engine True) handlers
        [CChunk (Output [1, 2] 2) [] [0], CSetCallback 0, CChunk (Input [3] 1) [0] []]
        (c_pairadmin_set_callback 0 (c_pairadmin_set_callback 1 c_fresh)) = Some (rs, s') \<and>
      c_pairadmin_callback s' = 0 \<and> c_observer s' = [] \<and> c_callbacks (c_trace s') = [])"
proof -
  let ?s = "c_pairadmin_set_callback 1 c_fresh :: (byte list, byte list, event list) c_world"
  have quiet: "\<forall>x \<in> set [CChunk (Output [1, 2] 2) [] [0], CSetCallback 0,
      CChunk (Input [3] 1) [0] []]. \<not> c_registers x"
    by simp
  have slot: "c_pairadmin_callback ?s = 1" and obs: "c_observer ?s = []"
    and tr: "c_callbacks (c_trace ?s) = []"
    by (simp_all add: c_pairadmin_set_callback_def c_fresh_def c_process_start_def)
  from no_notification_for_chunks_after_unregister [OF quiet, of "mock_engine True" handlers ?s]
  show ?thesis using slot obs tr by simp
qed

end
